theory Spec2Isabelle
  imports Complex_Main
begin

section \<open>Cards and the deck (src/js/deck.js)\<close>

text \<open>
  A card is the object \<^verbatim>\<open>{ suit, rank, value }\<close>. Suits and ranks are the strings of
  \<^verbatim>\<open>SUITS\<close> and \<^verbatim>\<open>RANKS\<close>; they are closed sets and become datatypes. The value is
  a field of its own, as in the source: the tests build cards by hand.
\<close>

datatype suit = Hearts | Diamonds | Clubs | Spades

datatype rank = R2 | R3 | R4 | R5 | R6 | R7 | R8 | R9 | R10 | RJ | RQ | RK | RA

record card =
  suit :: suit
  rank :: rank
  cvalue :: int

definition SUITS :: "suit list" where
  "SUITS = [Hearts, Diamonds, Clubs, Spades]"

definition RANKS :: "rank list" where
  "RANKS = [R2, R3, R4, R5, R6, R7, R8, R9, R10, RJ, RQ, RK, RA]"

fun VALUE_MAP :: "rank \<Rightarrow> int" where
  "VALUE_MAP R2 = 2"
| "VALUE_MAP R3 = 3"
| "VALUE_MAP R4 = 4"
| "VALUE_MAP R5 = 5"
| "VALUE_MAP R6 = 6"
| "VALUE_MAP R7 = 7"
| "VALUE_MAP R8 = 8"
| "VALUE_MAP R9 = 9"
| "VALUE_MAP R10 = 10"
| "VALUE_MAP RJ = 11"
| "VALUE_MAP RQ = 12"
| "VALUE_MAP RK = 13"
| "VALUE_MAP RA = 15"

text \<open>\<^verbatim>\<open>createDeck\<close>: for each suit, for each rank, push the card.\<close>

definition createDeck :: "card list" where
  "createDeck =
     concat (map (\<lambda>s. map (\<lambda>r. \<lparr>suit = s, rank = r, cvalue = VALUE_MAP r\<rparr>) RANKS) SUITS)"

definition cardValue :: "rank \<Rightarrow> int" where
  "cardValue r = VALUE_MAP r"

text \<open>
  \<^verbatim>\<open>Math.random()\<close> returns a double in \<open>[0, 1)\<close>. A sample is modelled by the rational
  number it denotes; the code only ever multiplies it by a small positive integer and
  takes the floor. The samples an operation consumes are passed to it as a function.
\<close>

type_synonym sample = rat

definition randomIndex :: "sample \<Rightarrow> nat \<Rightarrow> nat" where
  \<comment> \<open>\<^verbatim>\<open>Math.floor(Math.random() * (i + 1))\<close>\<close>
  "randomIndex u i = nat \<lfloor>u * of_nat (i + 1)\<rfloor>"

text \<open>
  \<^verbatim>\<open>shuffle\<close> (Fisher-Yates, in place): \<^verbatim>\<open>for (i = deck.length - 1; i > 0; i--)\<close> swap
  \<^verbatim>\<open>deck[i]\<close> and \<^verbatim>\<open>deck[j]\<close>. The destructuring assignment reads both cells first, then
  writes \<^verbatim>\<open>deck[i]\<close>, then \<^verbatim>\<open>deck[j]\<close>. With a sample in \<open>[0, 1)\<close> the index \<open>j\<close> is at
  most \<open>i\<close>, so every read and write is in range. \<open>rnd i\<close> is the sample drawn in
  the iteration for index \<open>i\<close>.
\<close>

fun shuffleFrom :: "(nat \<Rightarrow> sample) \<Rightarrow> nat \<Rightarrow> card list \<Rightarrow> card list" where
  "shuffleFrom rnd 0 deck = deck"
| "shuffleFrom rnd (Suc i) deck =
     (let j = randomIndex (rnd (Suc i)) (Suc i);
          a = deck ! j;
          b = deck ! Suc i
      in shuffleFrom rnd i ((deck[Suc i := a])[j := b]))"

definition shuffle :: "(nat \<Rightarrow> sample) \<Rightarrow> card list \<Rightarrow> card list" where
  "shuffle rnd deck = shuffleFrom rnd (length deck - 1) deck"

text \<open>
  \<^verbatim>\<open>Array.prototype.splice(start, deleteCount)\<close> on integer arguments: a negative start
  counts from the end, both are clamped into the array. The result is the removed
  elements and the array that is left.
\<close>

definition splice :: "'a list \<Rightarrow> int \<Rightarrow> int \<Rightarrow> 'a list \<times> 'a list" where
  "splice xs start deleteCount =
     (let len = int (length xs);
          actualStart = (if start < 0 then max (len + start) 0 else min start len);
          actualDeleteCount = min (max deleteCount 0) (len - actualStart);
          s = nat actualStart;
          d = nat actualDeleteCount
      in (take d (drop s xs), take s xs @ drop (s + d) xs))"

text \<open>
  \<^verbatim>\<open>digitalDraw\<close> returns the drawn cards; the deck it was given is mutated, so the model
  returns the remaining deck as second component. There is no throw in it.
\<close>

definition digitalDraw :: "card list \<Rightarrow> int \<Rightarrow> card list \<times> card list" where
  "digitalDraw deck count =
     (let actual = min count (int (length deck))
      in splice deck 0 actual)"

text \<open>
  \<^verbatim>\<open>draw\<close>: with a provider installed, its cards are returned and the deck is left as it
  is; otherwise \<^verbatim>\<open>digitalDraw\<close>. The provider argument is what the installed provider
  answers to this call.
\<close>

definition draw :: "(int \<Rightarrow> card list) option \<Rightarrow> card list \<Rightarrow> int \<Rightarrow> card list \<times> card list" where
  "draw provider deck count =
     (case provider of
        Some p \<Rightarrow> (p count, deck)
      | None \<Rightarrow> digitalDraw deck count)"

definition returnCards :: "(nat \<Rightarrow> sample) \<Rightarrow> card list \<Rightarrow> card list \<Rightarrow> card list" where
  "returnCards rnd deck cards = shuffle rnd (deck @ cards)"

section \<open>Dice (dice.js, in src/unnamed/part_005) and the manual dice prompt (src/js/ui.js)\<close>

datatype dieType = D4 | D6 | D8 | D10 | D12 | D20 | D100

fun DIE_MAX :: "dieType \<Rightarrow> int" where
  "DIE_MAX D4 = 4"
| "DIE_MAX D6 = 6"
| "DIE_MAX D8 = 8"
| "DIE_MAX D10 = 10"
| "DIE_MAX D12 = 12"
| "DIE_MAX D20 = 20"
| "DIE_MAX D100 = 100"

definition getDieMax :: "dieType \<Rightarrow> int" where
  "getDieMax d = DIE_MAX d"

definition digitalRoll :: "sample \<Rightarrow> dieType \<Rightarrow> int" where
  \<comment> \<open>\<^verbatim>\<open>Math.floor(Math.random() * max) + 1\<close>; every \<open>dieType\<close> has a maximum, so the throw
      for an unknown die type has no branch here.\<close>
  "digitalRoll u d = \<lfloor>u * of_int (DIE_MAX d)\<rfloor> + 1"

text \<open>
  \<^verbatim>\<open>roll\<close>: \<^verbatim>\<open>if (provider) return provider(dieType); return digitalRoll(dieType);\<close>.
  The provider argument is what the installed provider resolves to in this call.
\<close>

definition roll :: "(dieType \<Rightarrow> int) option \<Rightarrow> sample \<Rightarrow> dieType \<Rightarrow> int" where
  "roll provider u d =
     (case provider of
        Some p \<Rightarrow> p d
      | None \<Rightarrow> digitalRoll u d)"

text \<open>
  \<^verbatim>\<open>UI.diceInput\<close> opens a prompt and resolves on a click of Submit. The click handler
  parses the field with \<^verbatim>\<open>parseInt(input.value, 10)\<close> and returns without resolving when
  the result is \<^verbatim>\<open>NaN\<close>, below 1 or above the die's maximum. A click is modelled by what
  \<^verbatim>\<open>parseInt\<close> gave (\<open>None\<close> for \<^verbatim>\<open>NaN\<close>); the function runs the handler over the clicks
  in order and returns the resolved value, or \<open>None\<close> while the prompt is still open.
\<close>

fun diceInput :: "dieType \<Rightarrow> int option list \<Rightarrow> int option" where
  "diceInput d [] = None"
| "diceInput d (None # clicks) = diceInput d clicks"
| "diceInput d (Some v # clicks) =
     (if v < 1 \<or> v > getDieMax d then diceInput d clicks else Some v)"

section \<open>Game state (state.js, in src/tests/test-state.js)\<close>

record inputMode =
  dice :: string
  cards :: string

record timed =
  tcard :: card
  turnsRemaining :: int

text \<open>
  The text of a log entry is a template string over the rank, the suit symbol, the roll
  breakdown, the total and the target. The model keeps the template and the values that
  fill it, not the rendered characters.
\<close>

datatype breakdownPart = DieRoll dieType int | LeaderPart int

datatype logText =
    NoOperatives
  | RecruitSuccess rank suit "breakdownPart list" int int
  | RecruitFailed rank suit "breakdownPart list" int int
  | Drew rank suit int

record logEntry =
  turn :: int
  entryText :: logText

text \<open>
  The object built by \<^verbatim>\<open>createInitial\<close>. The arrays that the code under study creates
  empty and never fills (\<^verbatim>\<open>assignments\<close>, \<^verbatim>\<open>multiTurnOps\<close> and the three operation lists)
  hold opaque entries.
\<close>

record game_state =
  resistanceValues :: "string list"
  regimeType :: "string list"
  inputMode :: inputMode
  influence :: int
  heat :: int
  supplies :: int
  recruitDeck :: "card list"
  recruitPool :: "card list"
  initiates :: "timed list"
  operatives :: "card list"
  detainedOperatives :: "timed list"
  leaderSkillLevel :: int
  currentTurn :: int
  assignments :: "string list"
  multiTurnOps :: "string list"
  availableMidGameOps :: "string list"
  availableLateGameOps :: "string list"
  completedLateGameOps :: "string list"
  turnLog :: "logEntry list"

definition createInitial :: game_state where
  "createInitial =
     \<lparr>resistanceValues = [], regimeType = [],
      inputMode = \<lparr>dice = ''digital'', cards = ''digital''\<rparr>,
      influence = 0, heat = 0, supplies = 0,
      recruitDeck = [], recruitPool = [], initiates = [], operatives = [],
      detainedOperatives = [], leaderSkillLevel = 0,
      currentTurn = 1, assignments = [], multiTurnOps = [],
      availableMidGameOps = [], availableLateGameOps = [], completedLateGameOps = [],
      turnLog = []\<rparr>"

definition clamp :: "int \<Rightarrow> int \<Rightarrow> int \<Rightarrow> int" where
  \<comment> \<open>\<^verbatim>\<open>Math.max(min, Math.min(max, value))\<close>\<close>
  "clamp v lo hi = max lo (min hi v)"

definition setInfluence :: "game_state \<Rightarrow> int \<Rightarrow> game_state" where
  "setInfluence state v = state\<lparr>influence := clamp v 0 500\<rparr>"

definition setHeat :: "game_state \<Rightarrow> int \<Rightarrow> game_state" where
  "setHeat state v = state\<lparr>heat := clamp v 0 100\<rparr>"

definition setSupplies :: "game_state \<Rightarrow> int \<Rightarrow> game_state" where
  "setSupplies state v = state\<lparr>supplies := max 0 v\<rparr>"

definition addInfluence :: "game_state \<Rightarrow> int \<Rightarrow> game_state" where
  "addInfluence state delta = setInfluence state (influence state + delta)"

definition addHeat :: "game_state \<Rightarrow> int \<Rightarrow> game_state" where
  "addHeat state delta = setHeat state (heat state + delta)"

definition addSupplies :: "game_state \<Rightarrow> int \<Rightarrow> game_state" where
  "addSupplies state delta = setSupplies state (supplies state + delta)"

definition STORAGE_PREFIX :: string where
  "STORAGE_PREFIX = ''good-fight-save-''"

text \<open>
  \<^verbatim>\<open>localStorage\<close> maps a key to a JSON text. \<^verbatim>\<open>JSON.stringify\<close> followed by
  \<^verbatim>\<open>JSON.parse\<close> gives back the plain data of a state, so the stored text is modelled
  by the state it encodes, and by \<open>None\<close> for the text \<^verbatim>\<open>null\<close>.
\<close>

type_synonym localStorage = "string \<rightharpoonup> game_state option"

definition save :: "localStorage \<Rightarrow> game_state option \<Rightarrow> string \<Rightarrow> localStorage" where
  "save store state slotName = store(STORAGE_PREFIX @ slotName \<mapsto> state)"

definition load :: "localStorage \<Rightarrow> string \<Rightarrow> game_state option" where
  "load store slotName =
     (case store (STORAGE_PREFIX @ slotName) of
        None \<Rightarrow> None
      | Some data \<Rightarrow> data)"

section \<open>The application module (app.js, src/unnamed/part_004)\<close>

text \<open>
  The module-level variables that the recruitment code reads and writes, passed
  explicitly: \<^verbatim>\<open>gameState\<close> of the application (\<^verbatim>\<open>null\<close> before a game begins), the
  provider variables of the dice and the deck modules, and \<^verbatim>\<open>localStorage\<close>. Two ghost
  fields record every call of \<^verbatim>\<open>Dice.roll\<close> and of \<^verbatim>\<open>Deck.draw\<close> with its argument. A
  provider is a JavaScript function and may answer each call differently: its model
  takes the number of earlier calls as first argument. Rendering writes to the document
  only and is left out.
\<close>

record app =
  gameState :: "game_state option"
  diceProvider :: "(nat \<Rightarrow> dieType \<Rightarrow> int) option"
  deckProvider :: "(nat \<Rightarrow> int \<Rightarrow> card list) option"
  diceRequests :: "dieType list"
  drawRequests :: "int list"
  storage :: localStorage

text \<open>What the manual-input prompts of js/ui.js resolve to, call by call.\<close>

record uiProviders =
  diceInputProvider :: "nat \<Rightarrow> dieType \<Rightarrow> int"
  cardInputProvider :: "nat \<Rightarrow> int \<Rightarrow> card list"

text \<open>What \<^verbatim>\<open>beginGame\<close> reads from the setup screen; a select that is missing is \<open>None\<close>.\<close>

record setupScreen =
  resistanceSelections :: "string list"
  regimeSelections :: "string list"
  diceSelect :: "string option"
  cardsSelect :: "string option"

definition syncInputProviders :: "uiProviders \<Rightarrow> app \<Rightarrow> app" where
  "syncInputProviders ui w =
     (case gameState w of
        None \<Rightarrow> w
      | Some gs \<Rightarrow>
          w\<lparr>diceProvider :=
               (if dice (inputMode gs) = ''physical'' then Some (diceInputProvider ui) else None),
            deckProvider :=
               (if cards (inputMode gs) = ''physical'' then Some (cardInputProvider ui) else None)\<rparr>)"

definition beginGame :: "setupScreen \<Rightarrow> (nat \<Rightarrow> sample) \<Rightarrow> uiProviders \<Rightarrow> app \<Rightarrow> app" where
  "beginGame su rnd ui w =
     (let state0 = createInitial
            \<lparr>resistanceValues := resistanceSelections su, regimeType := regimeSelections su\<rparr>;
          mode1 = (case diceSelect su of
                     None \<Rightarrow> inputMode state0
                   | Some v \<Rightarrow> (inputMode state0)\<lparr>dice := v\<rparr>);
          mode2 = (case cardsSelect su of
                     None \<Rightarrow> mode1
                   | Some v \<Rightarrow> mode1\<lparr>cards := v\<rparr>);
          state1 = state0\<lparr>inputMode := mode2\<rparr>;
          state2 = state1\<lparr>recruitDeck := shuffle rnd createDeck\<rparr>;
          state3 = state2\<lparr>influence := 0, heat := 0, supplies := 0, currentTurn := 1\<rparr>;
          w1 = w\<lparr>gameState := Some state3\<rparr>;
          w2 = syncInputProviders ui w1
      in w2\<lparr>storage := save (storage w2) (Some state3) ''current''\<rparr>)"

definition getInfluenceDie :: "int \<Rightarrow> dieType option" where
  "getInfluenceDie infl =
     (if infl \<ge> 300 then Some D20
      else if infl \<ge> 250 then Some D12
      else if infl \<ge> 200 then Some D10
      else if infl \<ge> 150 then Some D8
      else if infl \<ge> 100 then Some D6
      else if infl \<ge> 50 then Some D4
      else None)"

definition addLogEntry :: "logText \<Rightarrow> app \<Rightarrow> app" where
  "addLogEntry txt w =
     (case gameState w of
        None \<Rightarrow> w
      | Some gs \<Rightarrow>
          w\<lparr>gameState :=
               Some (gs\<lparr>turnLog := turnLog gs @ [\<lparr>turn = currentTurn gs, entryText = txt\<rparr>]\<rparr>)\<rparr>)"

text \<open>
  \<^verbatim>\<open>await Dice.roll(dieType)\<close> as the application sees it: the call is recorded, the
  value is what \<^verbatim>\<open>roll\<close> gives with the installed provider. The awaited promise is
  taken to resolve; a prompt that is never answered leaves the caller suspended and is
  not a run of this model.
\<close>

definition awaitDiceRoll :: "sample \<Rightarrow> dieType \<Rightarrow> app \<Rightarrow> int \<times> app" where
  "awaitDiceRoll u d w =
     (roll (map_option (\<lambda>p. p (length (diceRequests w))) (diceProvider w)) u d,
      w\<lparr>diceRequests := diceRequests w @ [d]\<rparr>)"

text \<open>\<^verbatim>\<open>arr[i]\<close> for an integer \<open>i\<close>: \<^verbatim>\<open>undefined\<close> (here \<open>None\<close>) outside the array.\<close>

definition jsIndex :: "'a list \<Rightarrow> int \<Rightarrow> 'a option" where
  "jsIndex xs i = (if 0 \<le> i \<and> i < int (length xs) then Some (xs ! nat i) else None)"

text \<open>
  The rolls of \<^verbatim>\<open>attemptRecruit\<close> (the lines from \<^verbatim>\<open>// Roll d10 base\<close> to the end of
  \<^verbatim>\<open>// Influence bonus die\<close>): the running total, the breakdown so far and the module
  state after the awaited calls. \<open>rnd 0\<close> and \<open>rnd 1\<close> are the samples a digital base
  roll and a digital bonus roll would draw.
\<close>

definition rollRecruitDice ::
  "(nat \<Rightarrow> sample) \<Rightarrow> int \<Rightarrow> app \<Rightarrow> int \<times> breakdownPart list \<times> app" where
  "rollRecruitDice rnd infl w =
     (let (baseRoll, w1) = awaitDiceRoll (rnd 0) D10 w
      in case getInfluenceDie infl of
           None \<Rightarrow> (baseRoll, [DieRoll D10 baseRoll], w1)
         | Some bonusDie \<Rightarrow>
             let (bonusRoll, w2) = awaitDiceRoll (rnd 1) bonusDie w1
             in (baseRoll + bonusRoll,
                 [DieRoll D10 baseRoll, DieRoll bonusDie bonusRoll], w2))"

text \<open>
  \<^verbatim>\<open>attemptRecruit(poolIndex)\<close>. Nothing but the dice module's call record changes
  while the rolls are awaited, so the state read at the start is the state the later
  lines see.
\<close>

definition attemptRecruit :: "(nat \<Rightarrow> sample) \<Rightarrow> int \<Rightarrow> app \<Rightarrow> app" where
  "attemptRecruit rnd poolIndex w =
     (case gameState w of
        None \<Rightarrow> w
      | Some gs \<Rightarrow>
         (case jsIndex (recruitPool gs) poolIndex of
            None \<Rightarrow> w
          | Some poolCard \<Rightarrow>
              if length (operatives gs) = 0 \<and> leaderSkillLevel gs = 0
              then addLogEntry NoOperatives w
              else
                let (diceTotal, breakdown, w2) = rollRecruitDice rnd (influence gs) w;
                    operativeValue = leaderSkillLevel gs;
                    total = diceTotal + operativeValue;
                    rollBreakdown = breakdown @ [LeaderPart operativeValue];
                    target = cvalue poolCard;
                    success = (total \<ge> target);
                    w3 = (if success
                          then addLogEntry
                                 (RecruitSuccess (rank poolCard) (suit poolCard)
                                    rollBreakdown total target)
                                 (w2\<lparr>gameState := Some
                                      (gs\<lparr>recruitPool := snd (splice (recruitPool gs) poolIndex 1),
                                          initiates := initiates gs
                                            @ [\<lparr>tcard = poolCard, turnsRemaining = 2\<rparr>]\<rparr>)\<rparr>)
                          else addLogEntry
                                 (RecruitFailed (rank poolCard) (suit poolCard)
                                    rollBreakdown total target)
                                 w2)
                in w3\<lparr>storage := save (storage w3) (gameState w3) ''current''\<rparr>))"

text \<open>
  \<^verbatim>\<open>drawToPool(count)\<close>: the deck handed to \<^verbatim>\<open>Deck.draw\<close> is \<^verbatim>\<open>gameState.recruitDeck\<close>
  itself, so what a digital draw removes is removed from the state.
\<close>

definition drawToPool :: "int \<Rightarrow> app \<Rightarrow> app" where
  "drawToPool count w =
     (case gameState w of
        None \<Rightarrow> w
      | Some gs \<Rightarrow>
          let (drawn, deck') =
                draw (map_option (\<lambda>p. p (length (drawRequests w))) (deckProvider w))
                  (recruitDeck gs) count;
              gs' = gs\<lparr>recruitDeck := deck', recruitPool := recruitPool gs @ drawn\<rparr>;
              w1 = w\<lparr>gameState := Some gs', drawRequests := drawRequests w @ [count]\<rparr>;
              w2 = fold (\<lambda>c. addLogEntry (Drew (rank c) (suit c) (cvalue c))) drawn w1
          in w2\<lparr>storage := save (storage w2) (gameState w2) ''current''\<rparr>)"

text \<open>
  \<^verbatim>\<open>updateLeaderSkill\<close>: 0 without operatives, else \<^verbatim>\<open>Math.max\<close> over their values.
\<close>

definition updateLeaderSkill :: "app \<Rightarrow> app" where
  "updateLeaderSkill w =
     (case gameState w of
        None \<Rightarrow> w
      | Some gs \<Rightarrow>
          (case map cvalue (operatives gs) of
             [] \<Rightarrow> w\<lparr>gameState := Some (gs\<lparr>leaderSkillLevel := 0\<rparr>)\<rparr>
           | v # vs \<Rightarrow> w\<lparr>gameState := Some (gs\<lparr>leaderSkillLevel := fold max vs v\<rparr>)\<rparr>))"

text \<open>
  A driver (the player's clicks, a test) calls the two recruitment entry points in any
  order. \<open>run\<close> performs a list of such calls from left to right.
\<close>

datatype action = DrawToPool int | AttemptRecruit "nat \<Rightarrow> sample" int

fun perform :: "action \<Rightarrow> app \<Rightarrow> app" where
  "perform (DrawToPool count) w = drawToPool count w"
| "perform (AttemptRecruit rnd poolIndex) w = attemptRecruit rnd poolIndex w"

fun run :: "action list \<Rightarrow> app \<Rightarrow> app" where
  "run [] w = w"
| "run (a # as) w = run as (perform a w)"

definition inPlay :: "game_state \<Rightarrow> nat" where
  \<comment> \<open>the count of the card-conservation property\<close>
  "inPlay gs =
     length (recruitDeck gs) + length (recruitPool gs) + length (initiates gs)
     + length (operatives gs) + length (detainedOperatives gs)"

text \<open>
  The module state the recruitment tests set up before they call \<^verbatim>\<open>attemptRecruit\<close>: an
  active game, the digital deck, and \<^verbatim>\<open>Dice.setProvider(() => Promise.resolve(v))\<close>, a
  provider that answers every request with the same number.
\<close>

definition constantProvider :: "int \<Rightarrow> dieType \<Rightarrow> int" where
  "constantProvider v d = v"

definition testApp :: "game_state \<Rightarrow> int \<Rightarrow> app" where
  "testApp gs v =
     \<lparr>gameState = Some gs, diceProvider = Some (\<lambda>k. constantProvider v),
      deckProvider = None, diceRequests = [], drawRequests = [], storage = Map.empty\<rparr>"

definition noGame :: app where
  \<comment> \<open>the modules as loaded, before any game begins\<close>
  "noGame =
     \<lparr>gameState = None, diceProvider = None, deckProvider = None,
      diceRequests = [], drawRequests = [], storage = Map.empty\<rparr>"

definition zeroSamples :: "nat \<Rightarrow> sample" where
  "zeroSamples k = 0"

text \<open>
  A setup screen with both input modes left digital, and prompts that are never shown.
\<close>

definition digitalSetup :: setupScreen where
  "digitalSetup =
     \<lparr>resistanceSelections = [], regimeSelections = [],
      diceSelect = Some ''digital'', cardsSelect = Some ''digital''\<rparr>"

definition noPrompts :: uiProviders where
  "noPrompts = \<lparr>diceInputProvider = (\<lambda>k d. 1), cardInputProvider = (\<lambda>k n. [])\<rparr>"

text \<open>
  States of the recruitment tests of the repository (in src/tests/test-app.js): the
  successful recruit (3 of clubs in the pool, the 5 of hearts as operative, leader
  skill 5), the roll-alone test (8 of spades, the 10 of clubs, leader skill 10) and the
  leader test (4 of hearts in the pool, a fresh deck, nobody recruited yet).
\<close>

definition successScenario :: game_state where
  "successScenario =
     createInitial
       \<lparr>recruitPool := [\<lparr>suit = Clubs, rank = R3, cvalue = 3\<rparr>],
        operatives := [\<lparr>suit = Hearts, rank = R5, cvalue = 5\<rparr>],
        leaderSkillLevel := 5\<rparr>"

definition rollAloneScenario :: game_state where
  "rollAloneScenario =
     createInitial
       \<lparr>recruitPool := [\<lparr>suit = Spades, rank = R8, cvalue = 8\<rparr>],
        operatives := [\<lparr>suit = Clubs, rank = R10, cvalue = 10\<rparr>],
        leaderSkillLevel := 10\<rparr>"

definition leaderOnlyScenario :: game_state where
  "leaderOnlyScenario =
     createInitial
       \<lparr>recruitDeck := createDeck,
        recruitPool := [\<lparr>suit = Hearts, rank = R4, cvalue = 4\<rparr>]\<rparr>"

text \<open>
  Two more states: one supply in store with an ace in the pool, and a king in the pool
  with the queen of spades as the only operative.
\<close>

definition oneSupplyScenario :: game_state where
  "oneSupplyScenario =
     createInitial
       \<lparr>supplies := 1,
        recruitPool := [\<lparr>suit = Spades, rank = RA, cvalue = 15\<rparr>],
        operatives := [\<lparr>suit = Clubs, rank = R2, cvalue = 2\<rparr>],
        leaderSkillLevel := 2\<rparr>"

definition kingScenario :: game_state where
  "kingScenario =
     createInitial
       \<lparr>recruitPool := [\<lparr>suit = Hearts, rank = RK, cvalue = 13\<rparr>],
        operatives := [\<lparr>suit = Spades, rank = RQ, cvalue = 12\<rparr>],
        leaderSkillLevel := 12\<rparr>"

section \<open>Supporting lemmas\<close>

lemma length_createDeck: "length createDeck = 52"
  by (simp add: createDeck_def SUITS_def RANKS_def)

lemma length_shuffleFrom: "length (shuffleFrom rnd n deck) = length deck"
  by (induction n arbitrary: deck) (simp_all add: Let_def)

lemma length_shuffle: "length (shuffle rnd deck) = length deck"
  by (simp add: shuffle_def length_shuffleFrom)

lemma splice_lengths:
  "length (fst (splice xs start deleteCount)) + length (snd (splice xs start deleteCount)) = length xs"
  by (auto simp: splice_def Let_def)

lemma splice_at_index:
  assumes "jsIndex xs i = Some c"
  shows "splice xs i 1 = ([c], take (nat i) xs @ drop (Suc (nat i)) xs)"
proof -
  from assms have r: "0 \<le> i" "i < int (length xs)" and c: "c = xs ! nat i"
    by (auto simp: jsIndex_def split: if_splits)
  from r have n: "nat i < length xs" by linarith
  have d: "nat (min 1 (int (length xs) - i)) = 1" using r by simp
  have "take 1 (drop (nat i) xs) = [xs ! nat i]"
    using n by (simp add: take_Suc_conv_app_nth Cons_nth_drop_Suc[symmetric])
  then show ?thesis using r n c d
    by (simp add: splice_def Let_def min_def)
qed

lemma digitalDraw_take_drop:
  "digitalDraw deck count = (take (nat count) deck, drop (nat count) deck)"
  by (auto simp: digitalDraw_def splice_def Let_def min_def max_def)


lemma gameState_addLogEntry:
  "gameState (addLogEntry txt w) =
     map_option (\<lambda>gs. gs\<lparr>turnLog := turnLog gs @ [\<lparr>turn = currentTurn gs, entryText = txt\<rparr>]\<rparr>)
       (gameState w)"
  by (simp add: addLogEntry_def split: option.split)

lemma addLogEntry_others:
  "diceProvider (addLogEntry txt w) = diceProvider w"
  "deckProvider (addLogEntry txt w) = deckProvider w"
  "diceRequests (addLogEntry txt w) = diceRequests w"
  "drawRequests (addLogEntry txt w) = drawRequests w"
  "storage (addLogEntry txt w) = storage w"
  by (simp_all add: addLogEntry_def split: option.split)

lemma inPlay_addLogEntry:
  "map_option inPlay (gameState (addLogEntry txt w)) = map_option inPlay (gameState w)"
  by (cases "gameState w") (simp_all add: gameState_addLogEntry inPlay_def)

lemma fold_addLogEntry_inPlay:
  "map_option inPlay (gameState (fold (\<lambda>c. addLogEntry (f c)) cs w)) = map_option inPlay (gameState w)"
  by (induction cs arbitrary: w) (simp_all add: inPlay_addLogEntry)

lemma fold_addLogEntry_deckProvider:
  "deckProvider (fold (\<lambda>c. addLogEntry (f c)) cs w) = deckProvider w"
  by (induction cs arbitrary: w) (simp_all add: addLogEntry_others)

lemma rollRecruitDice_frame:
  "gameState (snd (snd (rollRecruitDice rnd infl w))) = gameState w"
  "deckProvider (snd (snd (rollRecruitDice rnd infl w))) = deckProvider w"
  "diceProvider (snd (snd (rollRecruitDice rnd infl w))) = diceProvider w"
  "drawRequests (snd (snd (rollRecruitDice rnd infl w))) = drawRequests w"
  "storage (snd (snd (rollRecruitDice rnd infl w))) = storage w"
  by (simp_all add: rollRecruitDice_def awaitDiceRoll_def Let_def split: option.split)

lemma rollRecruitDice_requests:
  "diceRequests (snd (snd (rollRecruitDice rnd infl w))) =
     diceRequests w @ D10 # (case getInfluenceDie infl of None \<Rightarrow> [] | Some b \<Rightarrow> [b])"
  by (simp add: rollRecruitDice_def awaitDiceRoll_def Let_def split: option.split)

text \<open>The branches of \<^verbatim>\<open>attemptRecruit\<close>, one lemma each.\<close>

lemma attemptRecruit_no_state:
  "gameState w = None \<Longrightarrow> attemptRecruit rnd i w = w"
  by (simp add: attemptRecruit_def)

lemma attemptRecruit_no_card:
  "gameState w = Some gs \<Longrightarrow> jsIndex (recruitPool gs) i = None \<Longrightarrow> attemptRecruit rnd i w = w"
  by (simp add: attemptRecruit_def)

lemma attemptRecruit_refused:
  "gameState w = Some gs \<Longrightarrow> jsIndex (recruitPool gs) i = Some c \<Longrightarrow>
   operatives gs = [] \<Longrightarrow> leaderSkillLevel gs = 0 \<Longrightarrow>
   attemptRecruit rnd i w = addLogEntry NoOperatives w"
  by (simp add: attemptRecruit_def)

lemma attemptRecruit_success:
  assumes "gameState w = Some gs" and "jsIndex (recruitPool gs) i = Some c"
    and "\<not> (operatives gs = [] \<and> leaderSkillLevel gs = 0)"
    and "cvalue c \<le> fst (rollRecruitDice rnd (influence gs) w) + leaderSkillLevel gs"
  shows "gameState (attemptRecruit rnd i w) =
     Some (gs\<lparr>recruitPool := take (nat i) (recruitPool gs) @ drop (Suc (nat i)) (recruitPool gs),
              initiates := initiates gs @ [\<lparr>tcard = c, turnsRemaining = 2\<rparr>],
              turnLog := turnLog gs @
                [\<lparr>turn = currentTurn gs,
                  entryText = RecruitSuccess (rank c) (suit c)
                    (fst (snd (rollRecruitDice rnd (influence gs) w)) @ [LeaderPart (leaderSkillLevel gs)])
                    (fst (rollRecruitDice rnd (influence gs) w) + leaderSkillLevel gs)
                    (cvalue c)\<rparr>]\<rparr>)"
  using assms
  by (auto simp: attemptRecruit_def Let_def split_beta gameState_addLogEntry splice_at_index rollRecruitDice_frame)

lemma attemptRecruit_failure:
  assumes "gameState w = Some gs" and "jsIndex (recruitPool gs) i = Some c"
    and "\<not> (operatives gs = [] \<and> leaderSkillLevel gs = 0)"
    and "fst (rollRecruitDice rnd (influence gs) w) + leaderSkillLevel gs < cvalue c"
  shows "gameState (attemptRecruit rnd i w) =
     Some (gs\<lparr>turnLog := turnLog gs @
                [\<lparr>turn = currentTurn gs,
                  entryText = RecruitFailed (rank c) (suit c)
                    (fst (snd (rollRecruitDice rnd (influence gs) w)) @ [LeaderPart (leaderSkillLevel gs)])
                    (fst (rollRecruitDice rnd (influence gs) w) + leaderSkillLevel gs)
                    (cvalue c)\<rparr>]\<rparr>)"
  using assms
  by (auto simp: attemptRecruit_def Let_def split_beta gameState_addLogEntry rollRecruitDice_frame)

lemma digitalRoll_range:
  assumes "0 \<le> u" "u < 1"
  shows "1 \<le> digitalRoll u d \<and> digitalRoll u d \<le> DIE_MAX d"
proof -
  have m: "0 < DIE_MAX d" by (cases d) simp_all
  have "0 \<le> u * of_int (DIE_MAX d)" using assms m by simp
  then have lo: "0 \<le> \<lfloor>u * of_int (DIE_MAX d)\<rfloor>" by simp
  have "u * of_int (DIE_MAX d) < of_int (DIE_MAX d)" using assms m by simp
  then have hi: "\<lfloor>u * of_int (DIE_MAX d)\<rfloor> < DIE_MAX d" by (simp add: floor_less_iff)
  from lo hi show ?thesis by (simp add: digitalRoll_def)
qed

lemma diceInput_range:
  "diceInput d clicks = Some v \<Longrightarrow> 1 \<le> v \<and> v \<le> DIE_MAX d"
  by (induction d clicks rule: diceInput.induct) (auto simp: getDieMax_def split: if_splits)

section \<open>Resource setters\<close>

text \<open>
  Claim C6. For every integer \<open>x\<close> and every state, \<^verbatim>\<open>setInfluence\<close> leaves the influence
  in \<open>[0, 500]\<close>, \<^verbatim>\<open>setHeat\<close> leaves the heat in \<open>[0, 100]\<close> and \<^verbatim>\<open>setSupplies\<close> leaves
  the supplies at 0 or more; \<^verbatim>\<open>addInfluence\<close>, \<^verbatim>\<open>addHeat\<close> and \<^verbatim>\<open>addSupplies\<close> write the
  old value plus the delta through the same setters, so their results obey the same
  bounds.
\<close>

theorem setters_clamp:
  "0 \<le> influence (setInfluence state x) \<and> influence (setInfluence state x) \<le> 500
   \<and> 0 \<le> heat (setHeat state x) \<and> heat (setHeat state x) \<le> 100
   \<and> 0 \<le> supplies (setSupplies state x)
   \<and> addInfluence state delta = setInfluence state (influence state + delta)
   \<and> addHeat state delta = setHeat state (heat state + delta)
   \<and> addSupplies state delta = setSupplies state (supplies state + delta)
   \<and> 0 \<le> influence (addInfluence state delta) \<and> influence (addInfluence state delta) \<le> 500
   \<and> 0 \<le> heat (addHeat state delta) \<and> heat (addHeat state delta) \<le> 100
   \<and> 0 \<le> supplies (addSupplies state delta)"
  by (simp add: setInfluence_def setHeat_def setSupplies_def addInfluence_def addHeat_def
      addSupplies_def clamp_def)

section \<open>Drawing from the deck\<close>

text \<open>
  Claim C9. A draw in digital mode (no provider installed) has no failing branch. For
  every deck and every requested count \<open>count \<ge> 0\<close> it returns \<open>min count |deck|\<close>
  cards, namely the first ones of the deck, and leaves the rest of the deck; from the
  empty deck it returns the empty array.
\<close>

theorem digital_draw_never_fails:
  assumes "0 \<le> count"
  shows "int (length (fst (draw None deck count))) = min count (int (length deck))
       \<and> fst (draw None deck count) = take (nat count) deck
       \<and> snd (draw None deck count) = drop (nat count) deck
       \<and> draw None [] count = ([], [])"
  using assms by (auto simp: draw_def digitalDraw_take_drop)

text \<open>Five cards asked of a deck of three: three come back and the deck is empty.\<close>

theorem digital_draw_never_fails_witness:
  "(0::int) \<le> 5
   \<and> int (length (fst (draw None (take 3 createDeck) 5))) = 3
   \<and> snd (draw None (take 3 createDeck) 5) = []
   \<and> draw None [] 5 = ([], [])"
  using digital_draw_never_fails[of 5 "take 3 createDeck"]
  by (simp add: length_createDeck)

section \<open>Dice results\<close>

text \<open>
  Claim C5, as stated: whatever a relay or custom provider supplies, the result of
  \<^verbatim>\<open>Dice.roll\<close> lies between 1 and the die's maximum. It does not: \<^verbatim>\<open>roll\<close> hands back
  the provider's value unchecked. A provider that answers 7 makes \<^verbatim>\<open>roll('d4')\<close>
  return 7.
\<close>

theorem roll_custom_provider_counterexample:
  "\<not> (1 \<le> roll (Some (constantProvider 7)) 0 D4
      \<and> roll (Some (constantProvider 7)) 0 D4 \<le> DIE_MAX D4)"
  by (simp add: roll_def constantProvider_def)

text \<open>
  Claim C5, amended. \<^verbatim>\<open>Dice.roll\<close> returns an installed provider's value as it is. The
  result lies in \<open>[1, max]\<close> when no provider is installed (the automatic roll), and
  when the provider's value is one that the manual prompt \<^verbatim>\<open>UI.diceInput\<close> resolved:
  the prompt checks a submission against the same bound before it accepts it.
\<close>

theorem dice_roll_range:
  "(0 \<le> u \<and> u < 1 \<longrightarrow> 1 \<le> roll None u d \<and> roll None u d \<le> DIE_MAX d)
   \<and> (diceInput d clicks = Some v \<and> p d = v \<longrightarrow>
        1 \<le> roll (Some p) u d \<and> roll (Some p) u d \<le> DIE_MAX d)
   \<and> roll (Some p) u d = p d"
  using digitalRoll_range[of u d] diceInput_range[of d clicks v]
  by (auto simp: roll_def)

text \<open>
  A d6: the sample 1/2 rolls 4; the prompt rejects an empty field, 0 and 7 and
  resolves with 4.
\<close>

theorem dice_roll_range_witness:
  "((0::rat) \<le> 1/2 \<and> (1/2::rat) < 1) \<and> roll None (1/2) D6 = 4
   \<and> diceInput D6 [None, Some 0, Some 7, Some 4, Some 2] = Some 4
   \<and> constantProvider 4 D6 = 4
   \<and> roll (Some (constantProvider 4)) (1/2) D6 = 4"
  using dice_roll_range[of "1/2" D6 "[None, Some 0, Some 7, Some 4, Some 2]" 4 "constantProvider 4"]
  by (simp add: roll_def digitalRoll_def constantProvider_def getDieMax_def)

section \<open>Recruitment\<close>

lemmas eval_defs = attemptRecruit_def rollRecruitDice_def awaitDiceRoll_def roll_def jsIndex_def
  splice_def addLogEntry_def getInfluenceDie_def save_def createInitial_def testApp_def
  constantProvider_def Let_def noGame_def

lemma attemptRecruit_supplies:
  "map_option supplies (gameState (attemptRecruit rnd i w)) = map_option supplies (gameState w)"
  by (auto simp: attemptRecruit_def Let_def split_beta gameState_addLogEntry rollRecruitDice_frame
      split: option.split)

lemma attemptRecruit_requests:
  "diceRequests (attemptRecruit rnd i w) = diceRequests w
   \<or> (\<exists>gs. gameState w = Some gs \<and> diceRequests (attemptRecruit rnd i w) =
        diceRequests w @ D10 # (case getInfluenceDie (influence gs) of None \<Rightarrow> [] | Some b \<Rightarrow> [b]))"
  by (auto simp: attemptRecruit_def Let_def split_beta addLogEntry_others rollRecruitDice_requests
      split: option.split)

lemma attemptRecruit_deckProvider:
  "deckProvider (attemptRecruit rnd i w) = deckProvider w"
  by (auto simp: attemptRecruit_def Let_def split_beta addLogEntry_others rollRecruitDice_frame
      split: option.split)

lemma attemptRecruit_inPlay:
  "map_option inPlay (gameState (attemptRecruit rnd i w)) = map_option inPlay (gameState w)"
proof (cases "gameState w")
  case None
  then show ?thesis by (simp add: attemptRecruit_no_state)
next
  case (Some gs)
  note gs = this
  show ?thesis
  proof (cases "jsIndex (recruitPool gs) i")
    case None
    with gs show ?thesis by (simp add: attemptRecruit_no_card)
  next
    case (Some c)
    note c = this
    then have i: "nat i < length (recruitPool gs)"
      by (auto simp: jsIndex_def split: if_splits)
    show ?thesis
    proof (cases "operatives gs = [] \<and> leaderSkillLevel gs = 0")
      case True
      with gs c show ?thesis by (simp add: attemptRecruit_refused inPlay_addLogEntry)
    next
      case False
      note rolled = this
      show ?thesis
      proof (cases "cvalue c \<le> fst (rollRecruitDice rnd (influence gs) w) + leaderSkillLevel gs")
        case True
        from attemptRecruit_success[OF gs c rolled True] gs i show ?thesis
          by (simp add: inPlay_def)
      next
        case False
        then have "fst (rollRecruitDice rnd (influence gs) w) + leaderSkillLevel gs < cvalue c"
          by simp
        from attemptRecruit_failure[OF gs c rolled this] gs show ?thesis
          by (simp add: inPlay_def)
      qed
    qed
  qed
qed

text \<open>
  Claim C10. A call of \<^verbatim>\<open>attemptRecruit\<close> whose index names no card of the pool (it is
  negative or not below the pool's length), or that finds no active game, changes
  nothing: no roll is requested, no log entry is appended, nothing is saved, the game
  state is the one before.
\<close>

theorem attemptRecruit_bad_index_noop:
  assumes "\<forall>gs. gameState w = Some gs \<longrightarrow>
             poolIndex < 0 \<or> int (length (recruitPool gs)) \<le> poolIndex"
  shows "attemptRecruit rnd poolIndex w = w"
proof (cases "gameState w")
  case None
  then show ?thesis by (rule attemptRecruit_no_state)
next
  case (Some gs)
  with assms have "jsIndex (recruitPool gs) poolIndex = None"
    by (auto simp: jsIndex_def)
  with Some show ?thesis by (rule attemptRecruit_no_card)
qed

text \<open>Index 1 into a pool of one card, and a call before any game has begun.\<close>

theorem attemptRecruit_bad_index_noop_witness:
  "gameState (testApp successScenario 7) = Some successScenario
   \<and> int (length (recruitPool successScenario)) \<le> 1
   \<and> attemptRecruit zeroSamples 1 (testApp successScenario 7) = testApp successScenario 7
   \<and> gameState noGame = None
   \<and> attemptRecruit zeroSamples 0 noGame = noGame"
  using attemptRecruit_bad_index_noop[of "testApp successScenario 7" 1 zeroSamples]
    attemptRecruit_bad_index_noop[of noGame 0 zeroSamples]
  by (simp add: testApp_def successScenario_def createInitial_def noGame_def)

text \<open>
  Claim C7. When an attempt is rolled (the game is active, the index names a card, the
  call is not turned away for want of a recruiter) and the dice rolled sum to the
  card's value or more, the card is taken out of the pool at its index and appended to
  the initiates with \<open>turnsRemaining = 2\<close>, and one entry with the outcome is appended
  to the log; no other field changes. The leader's skill is 0 or the value of a card,
  hence not negative.
\<close>

theorem recruit_success_moves_card:
  assumes "gameState w = Some gs"
    and "jsIndex (recruitPool gs) poolIndex = Some c"
    and "\<not> (operatives gs = [] \<and> leaderSkillLevel gs = 0)"
    and "0 \<le> leaderSkillLevel gs"
    and "cvalue c \<le> fst (rollRecruitDice rnd (influence gs) w)"
  shows "gameState (attemptRecruit rnd poolIndex w) =
     Some (gs\<lparr>recruitPool := take (nat poolIndex) (recruitPool gs)
                               @ drop (Suc (nat poolIndex)) (recruitPool gs),
              initiates := initiates gs @ [\<lparr>tcard = c, turnsRemaining = 2\<rparr>],
              turnLog := turnLog gs @
                [\<lparr>turn = currentTurn gs,
                  entryText = RecruitSuccess (rank c) (suit c)
                    (fst (snd (rollRecruitDice rnd (influence gs) w))
                       @ [LeaderPart (leaderSkillLevel gs)])
                    (fst (rollRecruitDice rnd (influence gs) w) + leaderSkillLevel gs)
                    (cvalue c)\<rparr>]\<rparr>)"
  using assms by (intro attemptRecruit_success) simp_all

text \<open>
  The scenario of the specification: the 3 of clubs in the pool, one operative of value
  5, the die shows 7. Afterwards the pool is empty and the one initiate has two turns
  to go.
\<close>

theorem recruit_success_moves_card_witness:
  "gameState (testApp successScenario 7) = Some successScenario
   \<and> jsIndex (recruitPool successScenario) 0 = Some \<lparr>suit = Clubs, rank = R3, cvalue = 3\<rparr>
   \<and> \<not> (operatives successScenario = [] \<and> leaderSkillLevel successScenario = 0)
   \<and> 0 \<le> leaderSkillLevel successScenario
   \<and> fst (rollRecruitDice zeroSamples (influence successScenario) (testApp successScenario 7)) = 7
   \<and> map_option recruitPool (gameState (attemptRecruit zeroSamples 0 (testApp successScenario 7)))
       = Some []
   \<and> map_option (map turnsRemaining \<circ> initiates)
        (gameState (attemptRecruit zeroSamples 0 (testApp successScenario 7))) = Some [2]"
  using recruit_success_moves_card[of "testApp successScenario 7" successScenario 0
      "\<lparr>suit = Clubs, rank = R3, cvalue = 3\<rparr>" zeroSamples]
  by (simp add: successScenario_def testApp_def createInitial_def jsIndex_def rollRecruitDice_def
      awaitDiceRoll_def roll_def constantProvider_def getInfluenceDie_def)

text \<open>
  Claim C1 says that the dice alone are compared with the card's value. The code adds
  \<^verbatim>\<open>leaderSkillLevel\<close> to the total before it compares. In the repository's own test
  (value 8, leader skill 10, the die shows 5) the dice sum to 5, below 8, and the card
  is recruited all the same.
\<close>

theorem attemptRecruit_adds_leader_skill:
  "fst (rollRecruitDice zeroSamples (influence rollAloneScenario) (testApp rollAloneScenario 5)) = 5
   \<and> map_option recruitPool (gameState (attemptRecruit zeroSamples 0 (testApp rollAloneScenario 5)))
       = Some []
   \<and> map_option initiates (gameState (attemptRecruit zeroSamples 0 (testApp rollAloneScenario 5)))
       = Some [\<lparr>tcard = \<lparr>suit = Spades, rank = R8, cvalue = 8\<rparr>, turnsRemaining = 2\<rparr>]"
  by (simp add: eval_defs rollAloneScenario_def)

text \<open>
  Claim C2 says that the leader may always attempt. The code turns the call away when
  there is no operative and the leader's skill is 0, which is how every game starts:
  with the 4 of hearts in the pool and a provider that would answer 10, no die is
  requested, the card stays in the pool, and the log gets the refusal.
\<close>

theorem attemptRecruit_refuses_leader:
  "diceRequests (attemptRecruit zeroSamples 0 (testApp leaderOnlyScenario 10)) = []
   \<and> map_option turnLog (gameState (attemptRecruit zeroSamples 0 (testApp leaderOnlyScenario 10)))
       = Some [\<lparr>turn = 1, entryText = NoOperatives\<rparr>]
   \<and> map_option recruitPool (gameState (attemptRecruit zeroSamples 0 (testApp leaderOnlyScenario 10)))
       = Some [\<lparr>suit = Hearts, rank = R4, cvalue = 4\<rparr>]
   \<and> map_option initiates (gameState (attemptRecruit zeroSamples 0 (testApp leaderOnlyScenario 10)))
       = Some []"
  by (simp add: eval_defs leaderOnlyScenario_def)

text \<open>
  Claim C4 says that the player may spend one supply to roll a d12 in place of the d10.
  \<^verbatim>\<open>attemptRecruit\<close> has the pool index as its only parameter, always asks for a d10
  first and never writes \<^verbatim>\<open>supplies\<close> (lemmas \<open>attemptRecruit_requests\<close> and
  \<open>attemptRecruit_supplies\<close>). With one supply in store and an ace in the pool the
  only request is a d10 and the supply is still there.
\<close>

theorem attemptRecruit_no_supply_upgrade:
  "diceRequests (attemptRecruit zeroSamples 0 (testApp oneSupplyScenario 10)) = [D10]
   \<and> map_option supplies (gameState (attemptRecruit zeroSamples 0 (testApp oneSupplyScenario 10)))
       = Some 1
   \<and> map_option recruitPool (gameState (attemptRecruit zeroSamples 0 (testApp oneSupplyScenario 10)))
       = Some [\<lparr>suit = Spades, rank = RA, cvalue = 15\<rparr>]"
  by (simp add: eval_defs oneSupplyScenario_def)

text \<open>
  Claim C8 says that after a roll below the card's value nothing changes but the log.
  That holds on the branch the code takes as failure (lemma \<open>attemptRecruit_failure\<close>),
  but the code takes it only when the roll plus \<^verbatim>\<open>leaderSkillLevel\<close> is below the value.
  With a king (13) in the pool, leader skill 12 and a roll of 3, the roll is below the
  value and yet the king leaves the pool and becomes an initiate.
\<close>

theorem recruit_low_roll_changes_state:
  "fst (rollRecruitDice zeroSamples (influence kingScenario) (testApp kingScenario 3)) = 3
   \<and> 3 < cvalue \<lparr>suit = Hearts, rank = RK, cvalue = 13\<rparr>
   \<and> map_option recruitPool (gameState (attemptRecruit zeroSamples 0 (testApp kingScenario 3)))
       = Some []
   \<and> map_option initiates (gameState (attemptRecruit zeroSamples 0 (testApp kingScenario 3)))
       = Some [\<lparr>tcard = \<lparr>suit = Hearts, rank = RK, cvalue = 13\<rparr>, turnsRemaining = 2\<rparr>]"
  by (simp add: eval_defs kingScenario_def)

section \<open>Card conservation\<close>

lemma drawToPool_deckProvider:
  "deckProvider (drawToPool count w) = deckProvider w"
  by (simp add: drawToPool_def Let_def split_beta fold_addLogEntry_deckProvider split: option.split)

lemma drawToPool_inPlay:
  assumes "deckProvider w = None"
  shows "map_option inPlay (gameState (drawToPool count w)) = map_option inPlay (gameState w)"
proof (cases "gameState w")
  case None
  then show ?thesis by (simp add: drawToPool_def)
next
  case (Some gs)
  with assms show ?thesis
    by (simp add: drawToPool_def Let_def split_beta fold_addLogEntry_inPlay draw_def
        digitalDraw_take_drop inPlay_def)
qed

lemma run_inPlay:
  "deckProvider w = None \<Longrightarrow>
   map_option inPlay (gameState (run acts w)) = map_option inPlay (gameState w)"
proof (induction acts arbitrary: w)
  case Nil
  show ?case by simp
next
  case (Cons a acts)
  show ?case
  proof (cases a)
    case (DrawToPool count)
    have "deckProvider (drawToPool count w) = None"
      using Cons.prems by (simp add: drawToPool_deckProvider)
    from Cons.IH[OF this] DrawToPool Cons.prems show ?thesis
      by (simp add: drawToPool_inPlay)
  next
    case (AttemptRecruit rnd i)
    have "deckProvider (attemptRecruit rnd i w) = None"
      using Cons.prems by (simp add: attemptRecruit_deckProvider)
    from Cons.IH[OF this] AttemptRecruit show ?thesis
      by (simp add: attemptRecruit_inPlay)
  qed
qed

lemma beginGame_state:
  "\<exists>gs. gameState (beginGame su rnd ui w) = Some gs \<and> recruitDeck gs = shuffle rnd createDeck
     \<and> recruitPool gs = [] \<and> initiates gs = [] \<and> operatives gs = []
     \<and> detainedOperatives gs = []"
  by (simp add: beginGame_def syncInputProviders_def createInitial_def Let_def)

lemma beginGame_inPlay:
  "map_option inPlay (gameState (beginGame su rnd ui w)) = Some 52"
  using beginGame_state[of su rnd ui w]
  by (auto simp: inPlay_def length_shuffle length_createDeck)

lemma beginGame_deckProvider:
  "cardsSelect su \<noteq> Some ''physical'' \<Longrightarrow> deckProvider (beginGame su rnd ui w) = None"
  by (auto simp: beginGame_def syncInputProviders_def createInitial_def Let_def split: option.split)

text \<open>
  Claim C3. \<^verbatim>\<open>beginGame\<close> with the card mode not set to physical (and shuffle samples
  in \<open>[0, 1)\<close>, as \<^verbatim>\<open>Math.random\<close> gives them), followed by any
  sequence of \<^verbatim>\<open>drawToPool\<close> and \<^verbatim>\<open>attemptRecruit\<close> calls, leaves a state in which the
  recruit deck, the pool, the initiates, the operatives and the detained operatives
  hold 52 cards together. More generally, from any module state without a deck provider
  such a sequence keeps that count as it was: a digital draw moves cards from the deck
  to the pool, an attempt moves one card from the pool to the initiates or none.
\<close>

theorem card_conservation:
  assumes "\<forall>i. 0 \<le> rnd i \<and> rnd i < 1"
    and "cardsSelect su \<noteq> Some ''physical''"
    and "deckProvider w' = None"
  shows "map_option inPlay (gameState (run acts (beginGame su rnd ui w))) = Some 52
       \<and> map_option inPlay (gameState (run acts w')) = map_option inPlay (gameState w')"
  using run_inPlay[OF beginGame_deckProvider[OF assms(2)]] beginGame_inPlay run_inPlay[OF assms(3)]
  by simp

text \<open>
  A new game, three cards drawn, an attempt, sixty more cards asked for: 52 cards. From
  the scenario with one card in the pool and one operative, a successful attempt: two
  cards before, two after.
\<close>

theorem card_conservation_witness:
  "(\<forall>i. 0 \<le> zeroSamples i \<and> zeroSamples i < 1)
   \<and> cardsSelect digitalSetup \<noteq> Some ''physical''
   \<and> deckProvider (testApp successScenario 7) = None
   \<and> map_option inPlay
        (gameState (run [DrawToPool 3, AttemptRecruit zeroSamples 0, DrawToPool 60]
           (beginGame digitalSetup zeroSamples noPrompts noGame))) = Some 52
   \<and> map_option inPlay (gameState (run [AttemptRecruit zeroSamples 0] (testApp successScenario 7)))
       = Some 2"
proof -
  have a: "\<forall>i. 0 \<le> zeroSamples i \<and> zeroSamples i < 1"
    by (simp add: zeroSamples_def)
  have b: "cardsSelect digitalSetup \<noteq> Some ''physical''"
    by (simp add: digitalSetup_def)
  have c: "deckProvider (testApp successScenario 7) = None"
    by (simp add: testApp_def)
  have d: "map_option inPlay (gameState (testApp successScenario 7)) = Some 2"
    by (simp add: testApp_def successScenario_def createInitial_def inPlay_def)
  show ?thesis
    using a b c d
      card_conservation[OF a b c,
        of "[DrawToPool 3, AttemptRecruit zeroSamples 0, DrawToPool 60]" noPrompts noGame]
      card_conservation[OF a b c, of "[AttemptRecruit zeroSamples 0]" noPrompts noGame]
    by simp
qed

end
